theory Spec2Isabelle
  imports Main "HOL-Library.AList" "HOL-Library.Multiset"
begin

section \<open>Data model\<close>

text \<open>
  The registry delivers entity records as JSON objects, which Python reads as dictionaries
  of dynamically typed values. The embedding keeps the dynamic typing, because the
  functions of \<^verbatim>\<open>company_analyzer.py\<close> behave differently on a missing key, on
  \<^verbatim>\<open>None\<close>, on an integer and on a value of another type. Integers are Python's
  unbounded integers. Floats, booleans and lists do not occur in the fields the analyser
  reads and are left out of the value type.

  A dictionary is an association list with distinct keys in insertion order;
  \<open>AList.update\<close> is Python's item assignment (an existing key keeps its place, a new
  key goes to the end).
\<close>

datatype pyval = PyNone | PyInt int | PyStr string | PyDict "(string \<times> pyval) list"

type_synonym pydict = "(string \<times> pyval) list"

text \<open>The exception classes that the modelled code can raise or catch.\<close>

datatype exn = TypeError | AttributeError | UnicodeError
  | GaiError | SocketTimeout | RequestException

text \<open>\<^verbatim>\<open>d.get(k, default)\<close>; \<^verbatim>\<open>d.get(k)\<close> is \<open>dict_get d k PyNone\<close>.\<close>

definition dict_get :: "pydict \<Rightarrow> string \<Rightarrow> pyval \<Rightarrow> pyval" where
  "dict_get d k dflt = (case map_of d k of None \<Rightarrow> dflt | Some v \<Rightarrow> v)"

text \<open>Python's truth value of an object, as \<^verbatim>\<open>not x\<close> tests it.\<close>

fun truthy :: "pyval \<Rightarrow> bool" where
  "truthy PyNone = False"
| "truthy (PyInt i) = (i \<noteq> 0)"
| "truthy (PyStr s) = (s \<noteq> [])"
| "truthy (PyDict d) = (d \<noteq> [])"

section \<open>company\_analyzer.py\<close>

subsection \<open>Revenue estimate\<close>

text \<open>
  The literals of \<^verbatim>\<open>_estimate_revenue\<close> (lines 73 to 81), named: the value returned
  for zero employees and the four amounts per employee.
\<close>

definition floor_revenue :: int where "floor_revenue = 1000000"
definition tier1_rate :: int where "tier1_rate = 2000000"
definition tier2_rate :: int where "tier2_rate = 1500000"
definition tier3_rate :: int where "tier3_rate = 1200000"
definition tier4_rate :: int where "tier4_rate = 1000000"

text \<open>
  \<^verbatim>\<open>_estimate_revenue\<close>: \<^verbatim>\<open>company.get('antallAnsatte')\<close> is \<^verbatim>\<open>None\<close> for a
  missing key and for a null value, and the function returns \<^verbatim>\<open>None\<close> then. For a
  string or a dictionary \<^verbatim>\<open>employees == 0\<close> is false and \<^verbatim>\<open>employees <= 10\<close> raises
  \<^verbatim>\<open>TypeError\<close>.
\<close>

definition estimate_revenue :: "pydict \<Rightarrow> exn + pyval" where
  "estimate_revenue company =
     (case dict_get company ''antallAnsatte'' PyNone of
        PyNone \<Rightarrow> Inr PyNone
      | PyInt employees \<Rightarrow>
          Inr (PyInt (if employees = 0 then floor_revenue
                      else if employees \<le> 10 then employees * tier1_rate
                      else if employees \<le> 50 then employees * tier2_rate
                      else if employees \<le> 250 then employees * tier3_rate
                      else employees * tier4_rate))
      | PyStr s \<Rightarrow> Inl TypeError
      | PyDict d \<Rightarrow> Inl TypeError)"

subsection \<open>Size classification\<close>

text \<open>
  \<^verbatim>\<open>_classify_company_size\<close>: \<^verbatim>\<open>company.get('antallAnsatte', 0)\<close> is 0 only for a
  missing key; a null value gives \<^verbatim>\<open>None\<close>, for which \<^verbatim>\<open>None == 0\<close> is false and
  \<^verbatim>\<open>None <= 10\<close> raises \<^verbatim>\<open>TypeError\<close>, as it does for a string or a dictionary.
\<close>

definition classify_company_size :: "pydict \<Rightarrow> exn + string" where
  "classify_company_size company =
     (case dict_get company ''antallAnsatte'' (PyInt 0) of
        PyInt employees \<Rightarrow>
          Inr (if employees = 0 then ''micro''
               else if employees \<le> 10 then ''small''
               else if employees \<le> 50 then ''medium''
               else if employees \<le> 250 then ''large''
               else ''very_large'')
      | PyNone \<Rightarrow> Inl TypeError
      | PyStr s \<Rightarrow> Inl TypeError
      | PyDict d \<Rightarrow> Inl TypeError)"

text \<open>
  The order of the size categories (micro, small, medium, large, very\_large), as a
  position; a string that is no category gets the position 5.
\<close>

definition size_rank :: "string \<Rightarrow> nat" where
  "size_rank s =
     (if s = ''micro'' then 0 else if s = ''small'' then 1 else if s = ''medium'' then 2
      else if s = ''large'' then 3 else if s = ''very_large'' then 4 else 5)"

subsection \<open>Industry classification\<close>

definition industry_mapping :: "(string \<times> string) list" where
  "industry_mapping =
     [(''01'', ''agriculture''), (''02'', ''agriculture''), (''03'', ''agriculture''),
      (''05'', ''mining''), (''06'', ''mining''), (''07'', ''mining''), (''08'', ''mining''),
      (''09'', ''mining''),
      (''10'', ''manufacturing''), (''11'', ''manufacturing''), (''12'', ''manufacturing''),
      (''13'', ''manufacturing''), (''14'', ''manufacturing''), (''15'', ''manufacturing''),
      (''16'', ''manufacturing''), (''17'', ''manufacturing''), (''18'', ''manufacturing''),
      (''19'', ''manufacturing''), (''20'', ''manufacturing''), (''21'', ''manufacturing''),
      (''22'', ''manufacturing''), (''23'', ''manufacturing''), (''24'', ''manufacturing''),
      (''25'', ''manufacturing''), (''26'', ''manufacturing''), (''27'', ''manufacturing''),
      (''28'', ''manufacturing''), (''29'', ''manufacturing''), (''30'', ''manufacturing''),
      (''31'', ''manufacturing''), (''32'', ''manufacturing''), (''33'', ''manufacturing''),
      (''35'', ''utilities''), (''36'', ''utilities''), (''37'', ''utilities''),
      (''38'', ''utilities''), (''39'', ''utilities''),
      (''41'', ''construction''), (''42'', ''construction''), (''43'', ''construction''),
      (''45'', ''trade''), (''46'', ''trade''), (''47'', ''trade''),
      (''49'', ''transport''), (''50'', ''transport''), (''51'', ''transport''),
      (''52'', ''transport''), (''53'', ''transport''),
      (''55'', ''accommodation''), (''56'', ''accommodation''),
      (''58'', ''information''), (''59'', ''information''), (''60'', ''information''),
      (''61'', ''information''), (''62'', ''information''), (''63'', ''information''),
      (''64'', ''finance''), (''65'', ''finance''), (''66'', ''finance''),
      (''68'', ''real_estate''),
      (''69'', ''professional''), (''70'', ''professional''), (''71'', ''professional''),
      (''72'', ''professional''), (''73'', ''professional''), (''74'', ''professional''),
      (''75'', ''professional''),
      (''77'', ''services''), (''78'', ''services''), (''79'', ''services''),
      (''80'', ''services''), (''81'', ''services''), (''82'', ''services''),
      (''84'', ''public''), (''85'', ''education''),
      (''86'', ''health''), (''87'', ''health''), (''88'', ''health''),
      (''90'', ''arts''), (''91'', ''arts''), (''92'', ''arts''), (''93'', ''arts''),
      (''94'', ''other''), (''95'', ''other''), (''96'', ''other''), (''97'', ''other''),
      (''98'', ''other''), (''99'', ''other'')]"

text \<open>
  \<^verbatim>\<open>_get_industry_category\<close>. \<^verbatim>\<open>company.get('naeringskode1', {})\<close> is the empty
  dictionary only for a missing key; calling \<^verbatim>\<open>.get\<close> on a value that is no dictionary
  raises \<^verbatim>\<open>AttributeError\<close>. A falsy code (\<^verbatim>\<open>None\<close>, 0, the empty string, the empty
  dictionary) gives \<^verbatim>\<open>'unknown'\<close>. A code of one character is replaced by the empty
  string before the lookup. \<^verbatim>\<open>len\<close> of an integer raises \<^verbatim>\<open>TypeError\<close>; a
  dictionary has a length but cannot be sliced (the slice is refused as a key:
  \<^verbatim>\<open>TypeError\<close>, or \<^verbatim>\<open>KeyError\<close> from Python 3.12 on, modelled as \<open>TypeError\<close>).
\<close>

definition get_industry_category :: "pydict \<Rightarrow> exn + string" where
  "get_industry_category company =
     (case dict_get company ''naeringskode1'' (PyDict []) of
        PyDict naeringskode1 \<Rightarrow>
          (let nace_code = dict_get naeringskode1 ''kode'' (PyStr '''') in
           if \<not> truthy nace_code then Inr ''unknown''
           else case nace_code of
               PyStr s \<Rightarrow>
                 (let code_num = (if length s \<ge> 2 then take 2 s else '''') in
                  Inr (case map_of industry_mapping code_num of
                         Some category \<Rightarrow> category | None \<Rightarrow> ''other''))
             | PyDict d \<Rightarrow>
                 (if length d \<ge> 2 then Inl TypeError
                  else Inr (case map_of industry_mapping '''' of
                              Some category \<Rightarrow> category | None \<Rightarrow> ''other''))
             | PyInt i \<Rightarrow> Inl TypeError
             | PyNone \<Rightarrow> Inr ''unknown'')
      | PyNone \<Rightarrow> Inl AttributeError
      | PyInt i \<Rightarrow> Inl AttributeError
      | PyStr s \<Rightarrow> Inl AttributeError)"

subsection \<open>Enrichment\<close>

text \<open>
  \<^verbatim>\<open>enrich_company_data\<close> copies the dictionary it is given and assigns three keys of
  the copy. Whether the caller's dictionary stays as it was depends on the copy being a
  new object, so dictionaries live in a store here: an address is an index into the
  list of allocated dictionaries, \<^verbatim>\<open>company.copy()\<close> allocates the next address, and an
  item assignment rewrites the dictionary at one address. Nested dictionaries are
  values: the code never assigns into them. The three helper functions only read, and
  read the caller's dictionary from the store as it is at the time of the call. An
  exception leaves the store as the statements before it made it.
\<close>

type_synonym heap = "pydict list"

definition dict_copy :: "heap \<Rightarrow> nat \<Rightarrow> nat \<times> heap" where
  "dict_copy h a = (length h, h @ [h ! a])"

definition dict_set :: "heap \<Rightarrow> nat \<Rightarrow> string \<Rightarrow> pyval \<Rightarrow> heap" where
  "dict_set h a k v = h[a := AList.update k v (h ! a)]"

definition enrich_company_data :: "heap \<Rightarrow> nat \<Rightarrow> (exn + nat) \<times> heap" where
  "enrich_company_data h company =
     (let (enriched, h1) = dict_copy h company in
      case estimate_revenue (h1 ! company) of
        Inl e \<Rightarrow> (Inl e, h1)
      | Inr revenue_estimate \<Rightarrow>
     (let h2 = dict_set h1 enriched ''estimated_revenue'' revenue_estimate in
      case classify_company_size (h2 ! company) of
        Inl e \<Rightarrow> (Inl e, h2)
      | Inr size_category \<Rightarrow>
     (let h3 = dict_set h2 enriched ''size_category'' (PyStr size_category) in
      case get_industry_category (h3 ! company) of
        Inl e \<Rightarrow> (Inl e, h3)
      | Inr industry_category \<Rightarrow>
     (let h4 = dict_set h3 enriched ''industry_category'' (PyStr industry_category) in
      (Inr enriched, h4)))))"

text \<open>The keys that \<^verbatim>\<open>enrich_company_data\<close> assigns (lines 38, 41 and 44).\<close>

definition derived_fields :: "string set" where
  "derived_fields = {''estimated_revenue'', ''size_category'', ''industry_category''}"

subsection \<open>Filter and sort\<close>

text \<open>
  \<^verbatim>\<open>filter_large_companies\<close>: the loop over \<^verbatim>\<open>companies\<close>, with the list
  \<^verbatim>\<open>filtered\<close> as accumulator. \<^verbatim>\<open>employees is not None and employees >= min_employees\<close>
  skips a missing or null count without comparing it; comparing a string or a dictionary
  with the integer threshold raises \<^verbatim>\<open>TypeError\<close>. The function only reads the
  dictionaries, so it is given their contents.
\<close>

fun filter_loop :: "pydict list \<Rightarrow> int \<Rightarrow> pydict list \<Rightarrow> exn + pydict list" where
  "filter_loop [] min_employees filtered = Inr filtered"
| "filter_loop (company # rest) min_employees filtered =
     (case dict_get company ''antallAnsatte'' PyNone of
        PyNone \<Rightarrow> filter_loop rest min_employees filtered
      | PyInt employees \<Rightarrow>
          (if employees \<ge> min_employees
           then filter_loop rest min_employees (filtered @ [company])
           else filter_loop rest min_employees filtered)
      | PyStr s \<Rightarrow> Inl TypeError
      | PyDict d \<Rightarrow> Inl TypeError)"

definition filter_large_companies :: "pydict list \<Rightarrow> int \<Rightarrow> exn + pydict list" where
  "filter_large_companies companies min_employees = filter_loop companies min_employees []"

text \<open>
  \<^verbatim>\<open>get_revenue\<close>, the sort key: the stored estimate, or 0 when it is \<^verbatim>\<open>None\<close> or the
  key is missing.
\<close>

definition get_revenue :: "pydict \<Rightarrow> pyval" where
  "get_revenue company =
     (let revenue = dict_get company ''estimated_revenue'' PyNone in
      if revenue \<noteq> PyNone then revenue else PyInt 0)"

fun is_PyInt :: "pyval \<Rightarrow> bool" where
  "is_PyInt (PyInt i) = True"
| "is_PyInt v = False"

fun int_of :: "pyval \<Rightarrow> int" where
  "int_of (PyInt i) = i"
| "int_of v = 0"

text \<open>
  Python's \<^verbatim>\<open>sorted(xs, key=f, reverse=True)\<close> on integer keys. The sort is stable, and
  with \<^verbatim>\<open>reverse=True\<close> it reverses the list, sorts it ascending and stably, and
  reverses the result, which keeps elements of equal key in their original order.
  \<open>sort_key\<close> is a stable insertion sort.
\<close>

definition sorted_reverse :: "('a \<Rightarrow> int) \<Rightarrow> 'a list \<Rightarrow> 'a list" where
  "sorted_reverse f xs = rev (sort_key f (rev xs))"

text \<open>
  \<^verbatim>\<open>sort_by_revenue_estimate\<close>. The estimate of a classified entity is an integer or
  \<^verbatim>\<open>None\<close>, so every key is an integer. How Python orders keys of other types (or
  refuses to) is not modelled: the result is \<open>None\<close> for such a list.
\<close>

definition sort_by_revenue_estimate :: "pydict list \<Rightarrow> pydict list option" where
  "sort_by_revenue_estimate companies =
     (if list_all (\<lambda>c. is_PyInt (get_revenue c)) companies
      then Some (sorted_reverse (\<lambda>c. int_of (get_revenue c)) companies)
      else None)"

section \<open>domain\_finder.py\<close>

subsection \<open>Strings and regular expressions\<close>

text \<open>
  A character of the model is a Python character with a code point below 256: the
  ASCII characters and those of Latin-1, which has the Norwegian letters (\<open>CHR 0xF8\<close>
  is the letter o with stroke). The three tables below are Python's for these code
  points: \<^verbatim>\<open>str.lower\<close> maps the capital letters (A to Z, and 0xC0 to 0xDE but the
  multiplication sign 0xD7) to the character 32 places on and leaves the rest;
  \<^verbatim>\<open>\s\<close> matches the blank, the control characters 9 to 13 and 28 to 31, the next
  line character 0x85 and the no-break space 0xA0; a word character, between which and
  a character that is none (or an end of the string) \<^verbatim>\<open>\b\<close> matches, is a letter, a
  digit or the underscore, where the letters and digits beyond ASCII are those that
  \<^verbatim>\<open>str.isalnum\<close> accepts. A name with a character beyond Latin-1 has no
  counterpart in the type.
\<close>

definition upper_chars :: string where
  "upper_chars = ''ABCDEFGHIJKLMNOPQRSTUVWXYZ'' @
     [CHR 0xC0, CHR 0xC1, CHR 0xC2, CHR 0xC3, CHR 0xC4, CHR 0xC5, CHR 0xC6, CHR 0xC7,
      CHR 0xC8, CHR 0xC9, CHR 0xCA, CHR 0xCB, CHR 0xCC, CHR 0xCD, CHR 0xCE, CHR 0xCF,
      CHR 0xD0, CHR 0xD1, CHR 0xD2, CHR 0xD3, CHR 0xD4, CHR 0xD5, CHR 0xD6, CHR 0xD8,
      CHR 0xD9, CHR 0xDA, CHR 0xDB, CHR 0xDC, CHR 0xDD, CHR 0xDE]"

definition lower_chars :: string where
  "lower_chars = ''abcdefghijklmnopqrstuvwxyz'' @
     [CHR 0xE0, CHR 0xE1, CHR 0xE2, CHR 0xE3, CHR 0xE4, CHR 0xE5, CHR 0xE6, CHR 0xE7,
      CHR 0xE8, CHR 0xE9, CHR 0xEA, CHR 0xEB, CHR 0xEC, CHR 0xED, CHR 0xEE, CHR 0xEF,
      CHR 0xF0, CHR 0xF1, CHR 0xF2, CHR 0xF3, CHR 0xF4, CHR 0xF5, CHR 0xF6, CHR 0xF8,
      CHR 0xF9, CHR 0xFA, CHR 0xFB, CHR 0xFC, CHR 0xFD, CHR 0xFE]"

definition lower_char :: "char \<Rightarrow> char" where
  "lower_char c = (case map_of (zip upper_chars lower_chars) c of Some l \<Rightarrow> l | None \<Rightarrow> c)"

definition str_lower :: "string \<Rightarrow> string" where
  "str_lower s = map lower_char s"

definition is_space :: "char \<Rightarrow> bool" where
  "is_space c \<longleftrightarrow> c \<in> set [CHR 0x09, CHR 0x0A, CHR 0x0B, CHR 0x0C, CHR 0x0D,
                           CHR 0x1C, CHR 0x1D, CHR 0x1E, CHR 0x1F, CHR 0x20,
                           CHR 0x85, CHR 0xA0]"

definition is_lower_alnum :: "char \<Rightarrow> bool" where
  "is_lower_alnum c \<longleftrightarrow> c \<in> set ''abcdefghijklmnopqrstuvwxyz0123456789''"

definition is_letter :: "char \<Rightarrow> bool" where
  "is_letter c \<longleftrightarrow>
     c \<in> set ''abcdefghijklmnopqrstuvwxyzABCDEFGHIJKLMNOPQRSTUVWXYZ''"

text \<open>The characters from 128 to 255 that are letters or digits to \<^verbatim>\<open>str.isalnum\<close>.\<close>

definition latin1_alnum :: string where
  "latin1_alnum =
     [CHR 0xAA, CHR 0xB2, CHR 0xB3, CHR 0xB5, CHR 0xB9, CHR 0xBA, CHR 0xBC, CHR 0xBD,
      CHR 0xBE, CHR 0xC0, CHR 0xC1, CHR 0xC2, CHR 0xC3, CHR 0xC4, CHR 0xC5, CHR 0xC6,
      CHR 0xC7, CHR 0xC8, CHR 0xC9, CHR 0xCA, CHR 0xCB, CHR 0xCC, CHR 0xCD, CHR 0xCE,
      CHR 0xCF, CHR 0xD0, CHR 0xD1, CHR 0xD2, CHR 0xD3, CHR 0xD4, CHR 0xD5, CHR 0xD6,
      CHR 0xD8, CHR 0xD9, CHR 0xDA, CHR 0xDB, CHR 0xDC, CHR 0xDD, CHR 0xDE, CHR 0xDF,
      CHR 0xE0, CHR 0xE1, CHR 0xE2, CHR 0xE3, CHR 0xE4, CHR 0xE5, CHR 0xE6, CHR 0xE7,
      CHR 0xE8, CHR 0xE9, CHR 0xEA, CHR 0xEB, CHR 0xEC, CHR 0xED, CHR 0xEE, CHR 0xEF,
      CHR 0xF0, CHR 0xF1, CHR 0xF2, CHR 0xF3, CHR 0xF4, CHR 0xF5, CHR 0xF6, CHR 0xF8,
      CHR 0xF9, CHR 0xFA, CHR 0xFB, CHR 0xFC, CHR 0xFD, CHR 0xFE, CHR 0xFF]"

definition is_word_char :: "char \<Rightarrow> bool" where
  "is_word_char c \<longleftrightarrow> is_letter c \<or> c \<in> set ''0123456789_'' \<or> c \<in> set latin1_alnum"

text \<open>\<^verbatim>\<open>s.endswith(suffix)\<close> and the slice \<^verbatim>\<open>s[:-n]\<close> (empty for \<open>n = 0\<close>).\<close>

definition endswith :: "string \<Rightarrow> string \<Rightarrow> bool" where
  "endswith s suffix \<longleftrightarrow>
     length suffix \<le> length s \<and> drop (length s - length suffix) s = suffix"

definition drop_last :: "nat \<Rightarrow> string \<Rightarrow> string" where
  "drop_last n s = (if n = 0 then [] else take (length s - n) s)"

text \<open>
  \<^verbatim>\<open>re.findall(r'\b[a-zA-Z]+\b', s)\<close>, scanning from the left; \<open>prev_word\<close> says
  whether the character before the position is a word character. A match starts at an
  ASCII letter that follows no word character, takes the longest run of ASCII letters
  and needs a boundary after it; a shorter run ends before a letter, where there is no
  boundary. When the run is followed by another word character (a digit, the
  underscore, a letter beyond ASCII) there is no match at this position and the scan
  goes on with the next character.
\<close>

function findall_words :: "bool \<Rightarrow> string \<Rightarrow> string list" where
  "findall_words prev_word [] = []"
| "findall_words prev_word (c # cs) =
     (if is_letter c \<and> \<not> prev_word then
        (let run = takeWhile is_letter (c # cs);
             rest = dropWhile is_letter (c # cs)
         in if rest = [] \<or> \<not> is_word_char (hd rest)
            then run # findall_words True rest
            else findall_words True cs)
      else findall_words (is_word_char c) cs)"
  by pat_completeness auto
termination
  by (relation "measure (\<lambda>(p, s). length s)")
    (auto simp: le_imp_less_Suc length_dropWhile_le)

subsection \<open>Candidate generation\<close>

definition suffixes_to_remove :: "string list" where
  "suffixes_to_remove =
     [''as'', ''asa'', ''ba'', ''da'', ''iks'', ''ks'', ''nuf'', ''sa'', ''sf'']"

text \<open>The loop over the suffixes, which stops at the first one that matches.\<close>

fun remove_suffix :: "string list \<Rightarrow> string \<Rightarrow> string" where
  "remove_suffix [] clean_name = clean_name"
| "remove_suffix (suffix # rest) clean_name =
     (if endswith clean_name suffix then drop_last (length suffix) clean_name
      else remove_suffix rest clean_name)"

definition guess_domains_from_name :: "string \<Rightarrow> string set" where
  "guess_domains_from_name company_name =
     (if company_name = [] then {}
      else
        let clean_name = filter (\<lambda>c. \<not> is_space c) (str_lower company_name);
            clean_name = filter is_lower_alnum clean_name;
            clean_name = remove_suffix suffixes_to_remove clean_name
        in if length clean_name \<ge> 3
           then set (map (\<lambda>tld. clean_name @ tld) [''.no'', ''.com'', ''.org'', ''.net''])
           else {})"

text \<open>The placeholder \<^verbatim>\<open>_search_whois_by_org_number\<close>.\<close>

definition search_whois_by_org_number :: "string \<Rightarrow> string set" where
  "search_whois_by_org_number org_number = {}"

definition search_common_patterns :: "string \<Rightarrow> string set" where
  "search_common_patterns company_name =
     (if company_name = [] then {}
      else
        let words = findall_words False (str_lower company_name);
            single =
              (if length words \<ge> 1 then
                 (let main_word = words ! 0 in
                  if length main_word \<ge> 3
                  then {main_word @ ''.no'', main_word @ ''.com''} else {})
               else {});
            double =
              (if length words \<ge> 2 then
                 (let combined = concat (take 2 words);
                      dashed = words ! 0 @ ''-'' @ words ! 1
                  in (if length combined \<ge> 4
                      then {combined @ ''.no'', combined @ ''.com''} else {})
                     \<union> {dashed @ ''.no'', dashed @ ''.com''})
               else {})
        in single \<union> double)"

text \<open>
  The candidate set that \<^verbatim>\<open>find_domains_for_company\<close> builds (lines 37 to 47) before
  it verifies each element.
\<close>

definition candidate_domains :: "string \<Rightarrow> string \<Rightarrow> string set" where
  "candidate_domains company_name org_number =
     guess_domains_from_name company_name
     \<union> search_whois_by_org_number org_number
     \<union> search_common_patterns company_name"

subsection \<open>Verification\<close>

text \<open>
  The network is a parameter: what \<^verbatim>\<open>socket.gethostbyname\<close> does with a host name
  and what \<^verbatim>\<open>session.head\<close> does with a URL, each either returning or raising.
\<close>

record net =
  gethostbyname :: "string \<Rightarrow> exn + unit"
  session_head :: "string \<Rightarrow> exn + unit"

text \<open>
  \<^verbatim>\<open>_verify_domain\<close>. The two inner handlers are bare \<^verbatim>\<open>except:\<close> clauses and catch
  everything. The outer handler catches \<^verbatim>\<open>socket.gaierror\<close>, \<^verbatim>\<open>socket.timeout\<close> and
  \<^verbatim>\<open>requests.RequestException\<close>; an exception of another class leaves the function.
\<close>

definition caught :: "exn \<Rightarrow> bool" where
  "caught e \<longleftrightarrow> e = GaiError \<or> e = SocketTimeout \<or> e = RequestException"

definition verify_domain :: "net \<Rightarrow> string \<Rightarrow> exn + bool" where
  "verify_domain n domain =
     (case gethostbyname n domain of
        Inl e \<Rightarrow> (if caught e then Inr False else Inl e)
      | Inr u \<Rightarrow>
          (case session_head n (''http://'' @ domain) of
             Inr response \<Rightarrow> Inr True
           | Inl e \<Rightarrow>
               (case session_head n (''https://'' @ domain) of
                  Inr response \<Rightarrow> Inr True
                | Inl e' \<Rightarrow> Inr True)))"

text \<open>
  What CPython's \<^verbatim>\<open>socket.gethostbyname\<close> does before it asks the resolver: it
  encodes the host name with the \<^verbatim>\<open>idna\<close> codec, whose path for ASCII names
  (\<^verbatim>\<open>encodings/idna.py\<close>, \<^verbatim>\<open>Codec.encode\<close>) splits the name at the dots and raises
  \<^verbatim>\<open>UnicodeError\<close> when a label but the last is empty or any label has 64 characters
  or more. The empty name is encoded as it is. The resolver itself stays a parameter.
\<close>

fun split_dots :: "string \<Rightarrow> string list" where
  "split_dots [] = [[]]"
| "split_dots (c # cs) =
     (if c = CHR ''.'' then [] # split_dots cs
      else (case split_dots cs of
              label # labels \<Rightarrow> (c # label) # labels
            | [] \<Rightarrow> [[c]]))"

definition idna_encodable :: "string \<Rightarrow> bool" where
  "idna_encodable host \<longleftrightarrow>
     host = [] \<or>
     (let labels = split_dots host
      in list_all (\<lambda>label. 0 < length label \<and> length label < 64) (butlast labels)
         \<and> length (last labels) < 64)"

definition cpython_net :: "(string \<Rightarrow> exn + unit) \<Rightarrow> (string \<Rightarrow> exn + unit) \<Rightarrow> net" where
  "cpython_net resolver http_head =
     \<lparr> gethostbyname =
         (\<lambda>host. if idna_encodable host then resolver host else Inl UnicodeError),
       session_head = http_head \<rparr>"

section \<open>Properties of the analyser\<close>

lemma tier_rates_decrease:
  "tier1_rate > tier2_rate \<and> tier2_rate > tier3_rate \<and> tier3_rate > tier4_rate"
  by (simp add: tier1_rate_def tier2_rate_def tier3_rate_def tier4_rate_def)

lemma classify_company_size_int:
  "map_of c ''antallAnsatte'' = Some (PyInt e) \<Longrightarrow>
   classify_company_size c =
     Inr (if e = 0 then ''micro'' else if e \<le> 10 then ''small''
          else if e \<le> 50 then ''medium'' else if e \<le> 250 then ''large''
          else ''very_large'')"
  by (simp add: classify_company_size_def dict_get_def)

lemma estimate_revenue_int:
  "map_of c ''antallAnsatte'' = Some (PyInt e) \<Longrightarrow>
   estimate_revenue c =
     Inr (PyInt (if e = 0 then floor_revenue
                 else if e \<le> 10 then e * tier1_rate
                 else if e \<le> 50 then e * tier2_rate
                 else if e \<le> 250 then e * tier3_rate
                 else e * tier4_rate))"
  by (simp add: estimate_revenue_def dict_get_def)

lemma estimate_revenue_absent:
  "dict_get c ''antallAnsatte'' PyNone = PyNone \<Longrightarrow> estimate_revenue c = Inr PyNone"
  by (simp add: estimate_revenue_def)

subsection \<open>Size buckets\<close>

text \<open>
  Claim C4. For a record whose employee count is a non-negative integer \<open>e\<close>, the size
  classification returns one of the five categories: micro for 0, small for 1 to 10,
  medium for 11 to 50, large for 51 to 250 and very\_large above 250; and the category
  of a count \<open>e' \<ge> e\<close> is not lower in the order of the categories. The values at 10,
  11, 250 and 251 are read off in the witness.
\<close>

theorem classify_company_size_buckets:
  assumes "map_of c ''antallAnsatte'' = Some (PyInt e)" and "0 \<le> e"
    and "map_of c' ''antallAnsatte'' = Some (PyInt e')" and "e \<le> e'"
  shows "\<exists>s s'. classify_company_size c = Inr s \<and> classify_company_size c' = Inr s'
           \<and> s \<in> {''micro'', ''small'', ''medium'', ''large'', ''very_large''}
           \<and> (e = 0 \<longrightarrow> s = ''micro'')
           \<and> (1 \<le> e \<and> e \<le> 10 \<longrightarrow> s = ''small'')
           \<and> (11 \<le> e \<and> e \<le> 50 \<longrightarrow> s = ''medium'')
           \<and> (51 \<le> e \<and> e \<le> 250 \<longrightarrow> s = ''large'')
           \<and> (250 < e \<longrightarrow> s = ''very_large'')
           \<and> size_rank s \<le> size_rank s'"
  using assms by (simp add: classify_company_size_int size_rank_def)

theorem classify_company_size_buckets_witness:
  "classify_company_size [(''antallAnsatte'', PyInt 10)] = Inr ''small''
   \<and> classify_company_size [(''antallAnsatte'', PyInt 11)] = Inr ''medium''
   \<and> classify_company_size [(''antallAnsatte'', PyInt 250)] = Inr ''large''
   \<and> classify_company_size [(''antallAnsatte'', PyInt 251)] = Inr ''very_large''
   \<and> size_rank ''small'' \<le> size_rank ''medium''"
  using classify_company_size_buckets [of "[(''antallAnsatte'', PyInt 10)]" 10
      "[(''antallAnsatte'', PyInt 11)]" 11]
    classify_company_size_buckets [of "[(''antallAnsatte'', PyInt 11)]" 11
      "[(''antallAnsatte'', PyInt 250)]" 250]
    classify_company_size_buckets [of "[(''antallAnsatte'', PyInt 250)]" 250
      "[(''antallAnsatte'', PyInt 251)]" 251]
    classify_company_size_buckets [of "[(''antallAnsatte'', PyInt 251)]" 251
      "[(''antallAnsatte'', PyInt 251)]" 251]
  by (auto simp add: size_rank_def)

subsection \<open>Revenue estimate\<close>

text \<open>
  Claim C7. For a record whose employee count is a non-negative integer \<open>e\<close>, the
  estimate is the floor value for 0 and otherwise \<open>e\<close> times the rate of its tier; the
  four rates strictly decrease; for two counts \<open>e \<le> e'\<close> of the same tier the estimate
  of \<open>e\<close> is at most that of \<open>e'\<close>; and a record whose count is missing or
  \<^verbatim>\<open>None\<close> gets the estimate \<^verbatim>\<open>None\<close>, which is not the integer 0.
\<close>

theorem estimate_revenue_tiers:
  assumes "map_of c ''antallAnsatte'' = Some (PyInt e)" and "0 \<le> e"
    and "map_of c' ''antallAnsatte'' = Some (PyInt e')" and "e \<le> e'"
  shows "\<exists>r r'. estimate_revenue c = Inr (PyInt r) \<and> estimate_revenue c' = Inr (PyInt r')
           \<and> (e = 0 \<longrightarrow> r = floor_revenue)
           \<and> (1 \<le> e \<and> e \<le> 10 \<longrightarrow> r = e * tier1_rate)
           \<and> (11 \<le> e \<and> e \<le> 50 \<longrightarrow> r = e * tier2_rate)
           \<and> (51 \<le> e \<and> e \<le> 250 \<longrightarrow> r = e * tier3_rate)
           \<and> (250 < e \<longrightarrow> r = e * tier4_rate)
           \<and> tier1_rate > tier2_rate \<and> tier2_rate > tier3_rate \<and> tier3_rate > tier4_rate
           \<and> (e' = 0 \<or> (1 \<le> e \<and> e' \<le> 10) \<or> (11 \<le> e \<and> e' \<le> 50)
                \<or> (51 \<le> e \<and> e' \<le> 250) \<or> 250 < e \<longrightarrow> r \<le> r')
           \<and> (\<forall>d. dict_get d ''antallAnsatte'' PyNone = PyNone \<longrightarrow>
                  estimate_revenue d = Inr PyNone \<and> estimate_revenue d \<noteq> Inr (PyInt 0))"
  using assms tier_rates_decrease
  by (auto simp add: estimate_revenue_int estimate_revenue_absent
      tier1_rate_def tier2_rate_def tier3_rate_def tier4_rate_def)

theorem estimate_revenue_tiers_witness:
  "estimate_revenue [(''antallAnsatte'', PyInt 11)] = Inr (PyInt 16500000)
   \<and> estimate_revenue [(''antallAnsatte'', PyInt 50)] = Inr (PyInt 75000000)
   \<and> estimate_revenue [(''antallAnsatte'', PyNone)] = Inr PyNone
   \<and> estimate_revenue [] = Inr PyNone"
  using estimate_revenue_tiers [of "[(''antallAnsatte'', PyInt 11)]" 11
      "[(''antallAnsatte'', PyInt 50)]" 50]
    estimate_revenue_tiers [of "[(''antallAnsatte'', PyInt 50)]" 50
      "[(''antallAnsatte'', PyInt 50)]" 50]
  by (auto simp add: tier2_rate_def dict_get_def)

text \<open>
  Claim C10. For a record whose employee count is a non-negative integer, the estimate
  is an integer of at least 1,000,000, so it is not 0; a record that stores this estimate
  has it as its sort key, which is then not 0 either, while a record whose stored
  estimate is missing or \<^verbatim>\<open>None\<close> has the sort key 0.
\<close>

theorem estimate_revenue_at_least_million:
  assumes "map_of c ''antallAnsatte'' = Some (PyInt e)" and "0 \<le> e"
  shows "\<exists>r. estimate_revenue c = Inr (PyInt r) \<and> 1000000 \<le> r \<and> r \<noteq> 0
           \<and> (\<forall>d. map_of d ''estimated_revenue'' = Some (PyInt r) \<longrightarrow>
                  get_revenue d = PyInt r \<and> get_revenue d \<noteq> PyInt 0)
           \<and> (\<forall>d. dict_get d ''estimated_revenue'' PyNone = PyNone \<longrightarrow>
                  get_revenue d = PyInt 0)"
  using assms
  by (auto simp add: estimate_revenue_int get_revenue_def dict_get_def floor_revenue_def
      tier1_rate_def tier2_rate_def tier3_rate_def tier4_rate_def)

theorem estimate_revenue_at_least_million_witness:
  "estimate_revenue [(''antallAnsatte'', PyInt 0)] = Inr (PyInt 1000000)
   \<and> get_revenue [(''estimated_revenue'', PyInt 1000000)] = PyInt 1000000"
  using estimate_revenue_at_least_million [of "[(''antallAnsatte'', PyInt 0)]" 0]
  by (auto simp add: estimate_revenue_def dict_get_def floor_revenue_def)

subsection \<open>Filter\<close>

lemma filter_loop_known:
  assumes "\<forall>c\<in>set cs. dict_get c ''antallAnsatte'' PyNone = PyNone
             \<or> (\<exists>e. dict_get c ''antallAnsatte'' PyNone = PyInt e)"
  shows "filter_loop cs m acc =
           Inr (acc @ filter (\<lambda>c. \<exists>e. dict_get c ''antallAnsatte'' PyNone = PyInt e \<and> m \<le> e) cs)"
  using assms
proof (induction cs arbitrary: acc)
  case Nil
  then show ?case by simp
next
  case (Cons c cs)
  then have rest: "\<And>acc'. filter_loop cs m acc' =
      Inr (acc' @ filter (\<lambda>c. \<exists>e. dict_get c ''antallAnsatte'' PyNone = PyInt e \<and> m \<le> e) cs)"
    by simp
  from Cons.prems consider "dict_get c ''antallAnsatte'' PyNone = PyNone"
    | e where "dict_get c ''antallAnsatte'' PyNone = PyInt e"
    by auto
  then show ?case
    by cases (simp_all add: rest)
qed

text \<open>
  Claim C6. For every list of entity records whose employee count is missing,
  \<^verbatim>\<open>None\<close> or an integer, and every threshold, the filter returns, in their order,
  exactly the records whose count is an integer that is at least the threshold; a
  record whose count is missing or \<^verbatim>\<open>None\<close> is not in the result, whatever the
  threshold (the witness takes the threshold 0).
\<close>

theorem filter_large_companies_exact:
  assumes "\<forall>c\<in>set companies. dict_get c ''antallAnsatte'' PyNone = PyNone
             \<or> (\<exists>e. dict_get c ''antallAnsatte'' PyNone = PyInt e)"
  shows "\<exists>out. filter_large_companies companies min_employees = Inr out
           \<and> out = filter (\<lambda>c. \<exists>e. dict_get c ''antallAnsatte'' PyNone = PyInt e
                                 \<and> min_employees \<le> e) companies
           \<and> (\<forall>c\<in>set companies. dict_get c ''antallAnsatte'' PyNone = PyNone
                 \<longrightarrow> c \<notin> set out)"
  using filter_loop_known [OF assms, of min_employees "[]"]
  by (auto simp add: filter_large_companies_def)

theorem filter_large_companies_exact_witness:
  "filter_large_companies
     [[(''navn'', PyStr ''a'')], [(''antallAnsatte'', PyNone)],
      [(''antallAnsatte'', PyInt 0)], [(''antallAnsatte'', PyInt 20)]] 0
   = Inr [[(''antallAnsatte'', PyInt 0)], [(''antallAnsatte'', PyInt 20)]]"
  using filter_large_companies_exact [of
     "[[(''navn'', PyStr ''a'')], [(''antallAnsatte'', PyNone)],
       [(''antallAnsatte'', PyInt 0)], [(''antallAnsatte'', PyInt 20)]]" 0]
  by (auto simp add: dict_get_def)

subsection \<open>Sort\<close>

lemma sorted_reverse_mset: "mset (sorted_reverse f xs) = mset xs"
  by (simp add: sorted_reverse_def)

lemma sorted_reverse_descending:
  "sorted_wrt (\<lambda>a b. f a \<ge> f b) (sorted_reverse f xs)"
proof -
  have "sorted (map f (sort_key f (rev xs)))" by simp
  then have "sorted_wrt (\<lambda>a b. f a \<le> f b) (sort_key f (rev xs))"
    by (simp add: sorted_map)
  then show ?thesis
    by (simp add: sorted_reverse_def sorted_wrt_rev)
qed

lemma sorted_reverse_stable:
  "filter (\<lambda>y. f y = k) (sorted_reverse f xs) = filter (\<lambda>y. f y = k) xs"
proof -
  have "filter (\<lambda>y. f y = k) (sorted_reverse f xs)
          = rev (filter (\<lambda>y. f y = k) (sort_key f (rev xs)))"
    by (simp add: sorted_reverse_def rev_filter)
  also have "\<dots> = rev (filter (\<lambda>y. f y = k) (rev xs))"
    by (simp only: sort_key_stable)
  also have "\<dots> = filter (\<lambda>y. f y = k) xs"
    by (simp add: rev_filter)
  finally show ?thesis .
qed

lemma sorted_reverse_filter_class:
  assumes "\<And>x. P x \<Longrightarrow> f x = k"
  shows "filter P (sorted_reverse f xs) = filter P xs"
proof -
  have split: "\<And>ys. filter P ys = filter P (filter (\<lambda>y. f y = k) ys)"
    using assms by (auto intro: filter_cong)
  show ?thesis
    by (subst split, subst sorted_reverse_stable, subst split [symmetric]) (rule refl)
qed

lemma get_revenue_cases:
  "dict_get c ''estimated_revenue'' PyNone = PyNone \<Longrightarrow> get_revenue c = PyInt 0"
  "dict_get c ''estimated_revenue'' PyNone = PyInt r \<Longrightarrow> get_revenue c = PyInt r"
  by (simp_all add: get_revenue_def)

text \<open>
  Claim C5. For every list of classified entities (the stored estimate is an integer,
  \<^verbatim>\<open>None\<close> or missing), the sort returns a rearrangement of the list that is
  descending in the key, where the key of a record that stores the estimate \<open>r\<close> is
  \<open>r\<close> and the key of a record without estimate is 0; records of equal key keep their
  relative order, for every key; and the records without estimate are in the result as
  they were in the input, in the same order, still without estimate.
\<close>

theorem sort_by_revenue_estimate_stable:
  assumes "\<forall>c\<in>set companies. dict_get c ''estimated_revenue'' PyNone = PyNone
             \<or> (\<exists>r. dict_get c ''estimated_revenue'' PyNone = PyInt r)"
  shows "\<exists>out. sort_by_revenue_estimate companies = Some out
           \<and> mset out = mset companies
           \<and> sorted_wrt (\<lambda>a b. int_of (get_revenue a) \<ge> int_of (get_revenue b)) out
           \<and> (\<forall>k. filter (\<lambda>c. int_of (get_revenue c) = k) out
                    = filter (\<lambda>c. int_of (get_revenue c) = k) companies)
           \<and> filter (\<lambda>c. dict_get c ''estimated_revenue'' PyNone = PyNone) out
               = filter (\<lambda>c. dict_get c ''estimated_revenue'' PyNone = PyNone) companies
           \<and> (\<forall>c. dict_get c ''estimated_revenue'' PyNone = PyNone \<longrightarrow>
                  int_of (get_revenue c) = 0)
           \<and> (\<forall>c r. dict_get c ''estimated_revenue'' PyNone = PyInt r \<longrightarrow>
                  int_of (get_revenue c) = r)"
proof -
  let ?key = "\<lambda>c. int_of (get_revenue c)"
  have "\<forall>c\<in>set companies. is_PyInt (get_revenue c)"
    using assms by (auto simp add: get_revenue_cases)
  then have "sort_by_revenue_estimate companies = Some (sorted_reverse ?key companies)"
    by (simp add: sort_by_revenue_estimate_def list_all_iff)
  moreover have "filter (\<lambda>c. dict_get c ''estimated_revenue'' PyNone = PyNone)
                   (sorted_reverse ?key companies)
                 = filter (\<lambda>c. dict_get c ''estimated_revenue'' PyNone = PyNone) companies"
    by (rule sorted_reverse_filter_class [where k = 0]) (simp add: get_revenue_cases)
  ultimately show ?thesis
    by (simp add: sorted_reverse_mset sorted_reverse_descending sorted_reverse_stable
        get_revenue_cases)
qed

theorem sort_by_revenue_estimate_stable_witness:
  "sort_by_revenue_estimate
     [[(''navn'', PyStr ''a''), (''estimated_revenue'', PyNone)],
      [(''navn'', PyStr ''b''), (''estimated_revenue'', PyInt 5)],
      [(''navn'', PyStr ''c''), (''estimated_revenue'', PyInt 10)],
      [(''navn'', PyStr ''d'')],
      [(''navn'', PyStr ''e''), (''estimated_revenue'', PyInt 5)]]
   = Some
     [[(''navn'', PyStr ''c''), (''estimated_revenue'', PyInt 10)],
      [(''navn'', PyStr ''b''), (''estimated_revenue'', PyInt 5)],
      [(''navn'', PyStr ''e''), (''estimated_revenue'', PyInt 5)],
      [(''navn'', PyStr ''a''), (''estimated_revenue'', PyNone)],
      [(''navn'', PyStr ''d'')]]
   \<and> int_of (get_revenue [(''navn'', PyStr ''c''), (''estimated_revenue'', PyInt 10)]) = 10
   \<and> int_of (get_revenue [(''navn'', PyStr ''b''), (''estimated_revenue'', PyInt 5)]) = 5"
  using sort_by_revenue_estimate_stable [of
     "[[(''navn'', PyStr ''a''), (''estimated_revenue'', PyNone)],
      [(''navn'', PyStr ''b''), (''estimated_revenue'', PyInt 5)],
      [(''navn'', PyStr ''c''), (''estimated_revenue'', PyInt 10)],
      [(''navn'', PyStr ''d'')],
      [(''navn'', PyStr ''e''), (''estimated_revenue'', PyInt 5)]]"]
  by (simp add: sort_by_revenue_estimate_def sorted_reverse_def get_revenue_def dict_get_def)

subsection \<open>Industry category\<close>

lemma industry_mapping_keys:
  "map_of industry_mapping k = Some v \<Longrightarrow> length k = 2"
proof -
  assume "map_of industry_mapping k = Some v"
  then have "(k, v) \<in> set industry_mapping" by (rule map_of_SomeD)
  moreover have "list_all (\<lambda>p. length (fst p) = 2) industry_mapping"
    by (simp add: industry_mapping_def)
  ultimately show ?thesis by (auto simp add: list_all_iff)
qed

lemma industry_mapping_values:
  "map_of industry_mapping k = Some v \<Longrightarrow> v \<noteq> ''unknown''"
proof -
  assume "map_of industry_mapping k = Some v"
  then have "(k, v) \<in> set industry_mapping" by (rule map_of_SomeD)
  moreover have "list_all (\<lambda>p. snd p \<noteq> ''unknown'') industry_mapping"
    by (simp add: industry_mapping_def)
  ultimately show ?thesis by (auto simp add: list_all_iff)
qed

lemma industry_lookup_short:
  "length s < 2 \<Longrightarrow> map_of industry_mapping s = None"
  using industry_mapping_keys [of s] by (cases "map_of industry_mapping s") auto

lemma get_industry_category_str:
  assumes "dict_get c ''naeringskode1'' (PyDict []) = PyDict d"
    and "dict_get d ''kode'' (PyStr []) = PyStr s" and "s \<noteq> []"
  shows "get_industry_category c =
           Inr (case map_of industry_mapping (take 2 s) of
                  Some category \<Rightarrow> category | None \<Rightarrow> ''other'')"
proof (cases "length s \<ge> 2")
  case True
  with assms show ?thesis by (simp add: get_industry_category_def)
next
  case False
  then have "length s < 2" by simp
  then have "map_of industry_mapping s = None" "map_of industry_mapping [] = None" "take 2 s = s"
    by (simp_all add: industry_lookup_short)
  with assms False show ?thesis by (simp add: get_industry_category_def)
qed

lemma get_industry_category_no_code:
  assumes "dict_get c ''naeringskode1'' (PyDict []) = PyDict d"
    and "dict_get d ''kode'' (PyStr []) = PyStr [] \<or> dict_get d ''kode'' (PyStr []) = PyNone"
  shows "get_industry_category c = Inr ''unknown''"
  using assms by (auto simp add: get_industry_category_def)

text \<open>
  Claim C9. For a record whose industry code object is a dictionary or missing: a code
  that is missing, \<^verbatim>\<open>None\<close> or the empty string gives \<^verbatim>\<open>'unknown'\<close>; a code that
  is a non-empty string gives the table's entry for its first two characters, or
  \<^verbatim>\<open>'other'\<close> when the table has no such entry. The table never gives
  \<^verbatim>\<open>'unknown'\<close>, and the two defaults differ.
\<close>

theorem get_industry_category_lookup:
  assumes "dict_get c ''naeringskode1'' (PyDict []) = PyDict d"
  shows "(dict_get d ''kode'' (PyStr []) = PyStr [] \<or> dict_get d ''kode'' (PyStr []) = PyNone
            \<longrightarrow> get_industry_category c = Inr ''unknown'')
       \<and> (\<forall>s. dict_get d ''kode'' (PyStr []) = PyStr s \<and> s \<noteq> [] \<longrightarrow>
             (map_of industry_mapping (take 2 s) = None
                \<longrightarrow> get_industry_category c = Inr ''other'')
           \<and> (\<forall>category. map_of industry_mapping (take 2 s) = Some category
                \<longrightarrow> get_industry_category c = Inr category \<and> category \<noteq> ''unknown''))
       \<and> ''unknown'' \<noteq> ''other''"
  using assms
  by (auto simp add: get_industry_category_str get_industry_category_no_code
      dest: industry_mapping_values)

theorem get_industry_category_lookup_witness:
  "get_industry_category [(''naeringskode1'', PyDict [(''kode'', PyStr ''62.010'')])]
     = Inr ''information''
   \<and> get_industry_category [(''naeringskode1'', PyDict [(''kode'', PyStr ''04.100'')])]
     = Inr ''other''
   \<and> get_industry_category [(''navn'', PyStr ''a'')] = Inr ''unknown''"
  using get_industry_category_lookup [of
      "[(''naeringskode1'', PyDict [(''kode'', PyStr ''62.010'')])]"
      "[(''kode'', PyStr ''62.010'')]"]
    get_industry_category_lookup [of
      "[(''naeringskode1'', PyDict [(''kode'', PyStr ''04.100'')])]"
      "[(''kode'', PyStr ''04.100'')]"]
    get_industry_category_lookup [of "[(''navn'', PyStr ''a'')]" "[]"]
  by (simp add: dict_get_def industry_mapping_def)

subsection \<open>Enrichment\<close>

lemma dict_set_fresh:
  "dict_set (h @ [d]) (length h) k v = h @ [AList.update k v d]"
  by (simp add: dict_set_def)

lemma nth_append_old: "a < length h \<Longrightarrow> (h @ [d]) ! a = h ! a"
  by (simp add: nth_append)

lemma enrich_company_data_unfold:
  assumes "a < length h"
  shows "enrich_company_data h a =
     (case estimate_revenue (h ! a) of
        Inl e \<Rightarrow> (Inl e, h @ [h ! a])
      | Inr revenue \<Rightarrow>
          (case classify_company_size (h ! a) of
             Inl e \<Rightarrow> (Inl e, h @ [AList.update ''estimated_revenue'' revenue (h ! a)])
           | Inr size_category \<Rightarrow>
               (case get_industry_category (h ! a) of
                  Inl e \<Rightarrow>
                    (Inl e, h @ [AList.update ''size_category'' (PyStr size_category)
                                  (AList.update ''estimated_revenue'' revenue (h ! a))])
                | Inr industry \<Rightarrow>
                    (Inr (length h),
                     h @ [AList.update ''industry_category'' (PyStr industry)
                           (AList.update ''size_category'' (PyStr size_category)
                             (AList.update ''estimated_revenue'' revenue (h ! a)))]))))"
  using assms
  by (simp add: enrich_company_data_def dict_copy_def dict_set_fresh nth_append_old
      split: sum.splits)

lemma enrich_company_data_store:
  assumes "a < length h" and "enrich_company_data h a = (res, h')"
  shows "length h' = Suc (length h) \<and> (\<forall>b<length h. h' ! b = h ! b)"
  using assms
  by (auto simp add: enrich_company_data_unfold nth_append split: sum.splits)

lemma enrich_company_data_result:
  assumes "a < length h" and "enrich_company_data h a = (Inr a', h')"
  shows "\<exists>revenue size_category industry.
           estimate_revenue (h ! a) = Inr revenue
         \<and> classify_company_size (h ! a) = Inr size_category
         \<and> get_industry_category (h ! a) = Inr industry
         \<and> a' = length h
         \<and> h' ! a' = AList.update ''industry_category'' (PyStr industry)
                       (AList.update ''size_category'' (PyStr size_category)
                         (AList.update ''estimated_revenue'' revenue (h ! a)))"
  using assms
  by (auto simp add: enrich_company_data_unfold split: sum.splits)

lemma update_fresh: "k \<notin> fst ` set al \<Longrightarrow> AList.update k v al = al @ [(k, v)]"
  by (induction al) auto

lemma filter_update_derived:
  "k \<in> derived_fields \<Longrightarrow>
   filter (\<lambda>p. fst p \<notin> derived_fields) (AList.update k v al)
     = filter (\<lambda>p. fst p \<notin> derived_fields) al"
  by (induction al) auto

lemma derived_fields_mem:
  "''estimated_revenue'' \<in> derived_fields" "''size_category'' \<in> derived_fields"
  "''industry_category'' \<in> derived_fields"
  "''navn'' \<notin> derived_fields" "''organisasjonsnummer'' \<notin> derived_fields"
  by (simp_all add: derived_fields_def)

text \<open>
  Claim C8. Enrichment leaves every dictionary of the store as it was, the caller's
  record among them, whether it returns or raises. When it returns, the result is a new
  dictionary, which has the value of the input record at every key but the three
  derived ones (so at the identifier and the name), whose keys are those of the input
  and the three derived ones, and whose items other than the derived ones are those of
  the input in the same order. For an input record that has none of the three derived
  keys, the result is the input record with three items added at its end.
\<close>

theorem enrich_company_data_frame:
  assumes "a < length h" and "enrich_company_data h a = (res, h')"
  shows "(\<forall>b<length h. h' ! b = h ! b)
       \<and> (\<forall>a'. res = Inr a' \<longrightarrow>
             a' = length h \<and> a' < length h'
           \<and> (\<forall>k. k \<notin> derived_fields \<longrightarrow> map_of (h' ! a') k = map_of (h ! a) k)
           \<and> map_of (h' ! a') ''organisasjonsnummer'' = map_of (h ! a) ''organisasjonsnummer''
           \<and> map_of (h' ! a') ''navn'' = map_of (h ! a) ''navn''
           \<and> dom (map_of (h' ! a')) = dom (map_of (h ! a)) \<union> derived_fields
           \<and> filter (\<lambda>p. fst p \<notin> derived_fields) (h' ! a')
               = filter (\<lambda>p. fst p \<notin> derived_fields) (h ! a)
           \<and> (derived_fields \<inter> fst ` set (h ! a) = {} \<longrightarrow>
                (\<exists>revenue size_category industry.
                   h' ! a' = h ! a @ [(''estimated_revenue'', revenue),
                                      (''size_category'', PyStr size_category),
                                      (''industry_category'', PyStr industry)])))"
proof -
  have old: "length h' = Suc (length h)" "\<forall>b<length h. h' ! b = h ! b"
    using enrich_company_data_store [OF assms] by simp_all
  have new: "a' = length h \<and> a' < length h'
           \<and> (\<forall>k. k \<notin> derived_fields \<longrightarrow> map_of (h' ! a') k = map_of (h ! a) k)
           \<and> map_of (h' ! a') ''organisasjonsnummer'' = map_of (h ! a) ''organisasjonsnummer''
           \<and> map_of (h' ! a') ''navn'' = map_of (h ! a) ''navn''
           \<and> dom (map_of (h' ! a')) = dom (map_of (h ! a)) \<union> derived_fields
           \<and> filter (\<lambda>p. fst p \<notin> derived_fields) (h' ! a')
               = filter (\<lambda>p. fst p \<notin> derived_fields) (h ! a)
           \<and> (derived_fields \<inter> fst ` set (h ! a) = {} \<longrightarrow>
                (\<exists>revenue size_category industry.
                   h' ! a' = h ! a @ [(''estimated_revenue'', revenue),
                                      (''size_category'', PyStr size_category),
                                      (''industry_category'', PyStr industry)]))"
    if "res = Inr a'" for a'
  proof -
    from assms that obtain revenue size_category industry where
      a': "a' = length h" and
      d: "h' ! a' = AList.update ''industry_category'' (PyStr industry)
                       (AList.update ''size_category'' (PyStr size_category)
                         (AList.update ''estimated_revenue'' revenue (h ! a)))"
      using enrich_company_data_result [of a h a' h'] by auto
    have keep: "\<forall>k. k \<notin> derived_fields \<longrightarrow> map_of (h' ! a') k = map_of (h ! a) k"
      by (auto simp add: d AList.update_conv' derived_fields_def)
    have dom: "dom (map_of (h' ! a')) = dom (map_of (h ! a)) \<union> derived_fields"
      by (auto simp add: d AList.update_conv' derived_fields_def)
    have items: "filter (\<lambda>p. fst p \<notin> derived_fields) (h' ! a')
               = filter (\<lambda>p. fst p \<notin> derived_fields) (h ! a)"
      by (simp add: d filter_update_derived derived_fields_mem)
    have added: "\<exists>revenue size_category industry.
                   h' ! a' = h ! a @ [(''estimated_revenue'', revenue),
                                      (''size_category'', PyStr size_category),
                                      (''industry_category'', PyStr industry)]"
      if "derived_fields \<inter> fst ` set (h ! a) = {}"
    proof -
      from that have "''estimated_revenue'' \<notin> fst ` set (h ! a)"
        and "''size_category'' \<notin> fst ` set (h ! a)"
        and "''industry_category'' \<notin> fst ` set (h ! a)"
        using derived_fields_mem by blast+
      then have "h' ! a' = h ! a @ [(''estimated_revenue'', revenue),
                                    (''size_category'', PyStr size_category),
                                    (''industry_category'', PyStr industry)]"
        by (simp add: d update_fresh)
      then show ?thesis by blast
    qed
    from a' old(1) keep dom items added show ?thesis
      by (simp add: derived_fields_mem)
  qed
  from old(2) new show ?thesis by blast
qed

theorem enrich_company_data_frame_witness:
  "enrich_company_data
     [[(''organisasjonsnummer'', PyStr ''900000000''), (''navn'', PyStr ''Nordic Kraft AS''),
       (''antallAnsatte'', PyInt 120)]] 0
   = (Inr 1,
      [[(''organisasjonsnummer'', PyStr ''900000000''), (''navn'', PyStr ''Nordic Kraft AS''),
        (''antallAnsatte'', PyInt 120)],
       [(''organisasjonsnummer'', PyStr ''900000000''), (''navn'', PyStr ''Nordic Kraft AS''),
        (''antallAnsatte'', PyInt 120), (''estimated_revenue'', PyInt 144000000),
        (''size_category'', PyStr ''large''), (''industry_category'', PyStr ''unknown'')]])
   \<and> map_of [(''organisasjonsnummer'', PyStr ''900000000''),
              (''navn'', PyStr ''Nordic Kraft AS''), (''antallAnsatte'', PyInt 120),
              (''estimated_revenue'', PyInt 144000000), (''size_category'', PyStr ''large''),
              (''industry_category'', PyStr ''unknown'')] ''navn''
     = Some (PyStr ''Nordic Kraft AS'')"
proof -
  let ?c = "[(''organisasjonsnummer'', PyStr ''900000000''),
             (''navn'', PyStr ''Nordic Kraft AS''), (''antallAnsatte'', PyInt 120)]"
  let ?c' = "?c @ [(''estimated_revenue'', PyInt 144000000),
                   (''size_category'', PyStr ''large''),
                   (''industry_category'', PyStr ''unknown'')]"
  have run: "enrich_company_data [?c] 0 = (Inr 1, [?c, ?c'])"
    by (simp add: enrich_company_data_def dict_copy_def dict_set_def estimate_revenue_def
        classify_company_size_def get_industry_category_def dict_get_def tier3_rate_def)
  have len: "(0::nat) < length [?c]" by simp
  from enrich_company_data_frame [OF len run] run show ?thesis
    by simp
qed

lemma get_industry_category_returns:
  assumes "dict_get c ''naeringskode1'' (PyDict []) = PyDict d"
    and "dict_get d ''kode'' (PyStr []) = PyNone \<or> (\<exists>s. dict_get d ''kode'' (PyStr []) = PyStr s)"
  shows "\<exists>industry. get_industry_category c = Inr industry"
  using assms by (auto simp add: get_industry_category_def Let_def)

text \<open>
  Claim C3, amended. For every entity record whose employee count is missing or an
  integer, and whose industry code is missing, \<^verbatim>\<open>None\<close> or a string inside a code
  object that is a dictionary or missing, enrichment returns a record that has the three
  derived fields; when the employee count is missing, the estimate is \<^verbatim>\<open>None\<close> and
  the size category is \<^verbatim>\<open>'micro'\<close>.
\<close>

theorem enrich_company_data_returns:
  assumes "a < length h"
    and "map_of (h ! a) ''antallAnsatte'' = None
         \<or> (\<exists>e. map_of (h ! a) ''antallAnsatte'' = Some (PyInt e))"
    and "dict_get (h ! a) ''naeringskode1'' (PyDict []) = PyDict d"
    and "dict_get d ''kode'' (PyStr []) = PyNone
         \<or> (\<exists>s. dict_get d ''kode'' (PyStr []) = PyStr s)"
  shows "\<exists>a' h'. enrich_company_data h a = (Inr a', h')
           \<and> derived_fields \<subseteq> dom (map_of (h' ! a'))
           \<and> (map_of (h ! a) ''antallAnsatte'' = None \<longrightarrow>
                  map_of (h' ! a') ''estimated_revenue'' = Some PyNone
                \<and> map_of (h' ! a') ''size_category'' = Some (PyStr ''micro''))"
proof -
  from assms(3,4) obtain industry where ind: "get_industry_category (h ! a) = Inr industry"
    using get_industry_category_returns by blast
  from assms(2) show ?thesis
  proof
    assume missing: "map_of (h ! a) ''antallAnsatte'' = None"
    then have "estimate_revenue (h ! a) = Inr PyNone"
      and "classify_company_size (h ! a) = Inr ''micro''"
      by (simp_all add: estimate_revenue_def classify_company_size_def dict_get_def)
    with ind missing assms(1) show ?thesis
      by (simp add: enrich_company_data_unfold AList.update_conv' derived_fields_def)
  next
    assume "\<exists>e. map_of (h ! a) ''antallAnsatte'' = Some (PyInt e)"
    then obtain e where e: "map_of (h ! a) ''antallAnsatte'' = Some (PyInt e)" ..
    with ind assms(1) show ?thesis
      by (simp add: enrich_company_data_unfold estimate_revenue_int classify_company_size_int
          AList.update_conv' derived_fields_def)
  qed
qed

theorem enrich_company_data_returns_witness:
  "enrich_company_data [[(''navn'', PyStr ''Nordic Kraft AS'')]] 0
   = (Inr 1, [[(''navn'', PyStr ''Nordic Kraft AS'')],
              [(''navn'', PyStr ''Nordic Kraft AS''), (''estimated_revenue'', PyNone),
               (''size_category'', PyStr ''micro''),
               (''industry_category'', PyStr ''unknown'')]])"
  using enrich_company_data_returns [of 0 "[[(''navn'', PyStr ''Nordic Kraft AS'')]]" "[]"]
  by (simp add: enrich_company_data_def dict_copy_def dict_set_def estimate_revenue_def
        classify_company_size_def get_industry_category_def dict_get_def)

text \<open>
  Claim C3 as it is written fails on a record whose employee count is malformed: for
  the string \<^verbatim>\<open>'120'\<close> the comparison \<^verbatim>\<open>employees <= 10\<close> of
  \<^verbatim>\<open>_estimate_revenue\<close> raises \<^verbatim>\<open>TypeError\<close>, and enrichment raises with it.
\<close>

theorem enrich_company_data_malformed_count:
  "fst (enrich_company_data
          [[(''navn'', PyStr ''Nordic Kraft AS''), (''antallAnsatte'', PyStr ''120'')]] 0)
   = Inl TypeError"
  by (simp add: enrich_company_data_def dict_copy_def dict_set_def estimate_revenue_def
        classify_company_size_def get_industry_category_def dict_get_def)

text \<open>
  A null employee count passes \<^verbatim>\<open>_estimate_revenue\<close>, which tests for
  \<^verbatim>\<open>None\<close>, and raises in \<^verbatim>\<open>_classify_company_size\<close>, whose default 0 stands in
  for a missing key only.
\<close>

lemma enrich_company_data_null_count:
  "fst (enrich_company_data
          [[(''navn'', PyStr ''Nordic Kraft AS''), (''antallAnsatte'', PyNone)]] 0)
   = Inl TypeError"
  by (simp add: enrich_company_data_def dict_copy_def dict_set_def estimate_revenue_def
        classify_company_size_def get_industry_category_def dict_get_def)

section \<open>Properties of the domain finder\<close>

subsection \<open>Candidate generation\<close>

lemmas candidate_simps = candidate_domains_def guess_domains_from_name_def
  search_common_patterns_def search_whois_by_org_number_def str_lower_def lower_char_def
  upper_chars_def lower_chars_def latin1_alnum_def
  is_space_def is_lower_alnum_def is_letter_def is_word_char_def suffixes_to_remove_def
  endswith_def drop_last_def Let_def

text \<open>
  Claim C2, amended. The candidate set of the empty name is empty. The candidate set of
  \<^verbatim>\<open>Statoil ASA\<close> contains \<^verbatim>\<open>statoil.no\<close>, which the name-to-slug strategy emits
  after it has stripped the suffix \<^verbatim>\<open>asa\<close>; that strategy does not emit
  \<^verbatim>\<open>statoilasa.no\<close>, and the word-pattern strategy does, as the first two words put
  together.
\<close>

theorem candidate_domains_statoil:
  "candidate_domains '''' org_number = {}
   \<and> ''statoil.no'' \<in> candidate_domains ''Statoil ASA'' org_number
   \<and> ''statoil.no'' \<in> guess_domains_from_name ''Statoil ASA''
   \<and> ''statoilasa.no'' \<notin> guess_domains_from_name ''Statoil ASA''
   \<and> ''statoilasa.no'' \<in> search_common_patterns ''Statoil ASA''"
  by (simp add: candidate_simps)

text \<open>
  Claim C2 as it is written fails: the candidate set of \<^verbatim>\<open>Statoil ASA\<close> contains
  \<^verbatim>\<open>statoilasa.no\<close>.
\<close>

theorem candidate_domains_statoilasa:
  "''statoilasa.no'' \<in> candidate_domains ''Statoil ASA'' ''923609016''"
  by (simp add: candidate_simps)

subsection \<open>Verification\<close>

text \<open>
  What \<^verbatim>\<open>_verify_domain\<close> returns follows the outcome of the name resolution alone:
  true when it succeeds, whatever the two probes do, and false when it raises one of the
  three exception classes of the outer handler.
\<close>

lemma verify_domain_resolved:
  "gethostbyname n domain = Inr u \<Longrightarrow> verify_domain n domain = Inr True"
  by (simp add: verify_domain_def split: sum.splits)

lemma verify_domain_unresolved:
  "gethostbyname n domain = Inl e \<Longrightarrow> caught e \<Longrightarrow> verify_domain n domain = Inr False"
  by (simp add: verify_domain_def)

lemma verify_domain_raises:
  "gethostbyname n domain = Inl e \<Longrightarrow> \<not> caught e \<Longrightarrow> verify_domain n domain = Inl e"
  by (simp add: verify_domain_def)

lemma split_dots_replicate:
  "c \<noteq> CHR ''.'' \<Longrightarrow> split_dots (replicate k c @ CHR ''.'' # s) = replicate k c # split_dots s"
  by (induction k) simp_all

lemma long_label_not_encodable:
  "\<not> idna_encodable (replicate 64 CHR ''a'' @ ''.no'')"
  by (simp add: idna_encodable_def split_dots_replicate)

text \<open>
  Claim C1 (verification never raises, and returns true exactly when the name resolves)
  fails on a host name with a label of 64 characters: \<^verbatim>\<open>socket.gethostbyname\<close>
  raises \<^verbatim>\<open>UnicodeError\<close> before any lookup, whatever the resolver and the probes
  would do; the outer handler does not catch it, and it leaves \<^verbatim>\<open>_verify_domain\<close>.
\<close>

theorem verify_domain_long_label_raises:
  "verify_domain (cpython_net resolver http_head) (replicate 64 CHR ''a'' @ ''.no'')
   = Inl UnicodeError"
  using long_label_not_encodable
  by (simp add: verify_domain_def cpython_net_def caught_def)

text \<open>
  Such a host name is among the candidates of a company name of 64 letters, so
  \<^verbatim>\<open>find_domains_for_company\<close> passes it to \<^verbatim>\<open>_verify_domain\<close>.
\<close>

lemma long_name_candidate:
  "replicate 64 CHR ''a'' @ ''.no'' \<in> candidate_domains (replicate 64 CHR ''a'') org_number"
  by code_simp

end
